theory Spec2Isabelle
  imports Complex_Main
begin

section \<open>JavaScript numbers and \<open>parseFloat\<close>\<close>

text \<open>
  A JavaScript number is a NaN, an infinity or a finite value.  Finite values are kept
  exact (a rational): rounding to a double, overflow of a long literal and the sign of
  zero are not part of the model.
\<close>

datatype jsnum = NaN | PosInf | NegInf | Fin rat

text \<open>The global \<open>isNaN\<close>, on a value that is already a number.\<close>

fun isNaN :: "jsnum \<Rightarrow> bool" where
  "isNaN NaN = True"
| "isNaN _ = False"

fun negate :: "jsnum \<Rightarrow> jsnum" where
  "negate NaN = NaN"
| "negate PosInf = NegInf"
| "negate NegInf = PosInf"
| "negate (Fin q) = Fin (- q)"

text \<open>
  Characters are bytes here, so of the white space \<open>parseFloat\<close> strips, the model knows
  TAB, LF, VT, FF, CR, SP and NBSP.
\<close>

definition isWhiteSpace :: "char \<Rightarrow> bool" where
  "isWhiteSpace c = ((of_char c :: nat) = 9 \<or> (of_char c :: nat) = 10 \<or> (of_char c :: nat) = 11
     \<or> (of_char c :: nat) = 12 \<or> (of_char c :: nat) = 13 \<or> (of_char c :: nat) = 32
     \<or> (of_char c :: nat) = 160)"

definition isDigit :: "char \<Rightarrow> bool" where
  "isDigit c = (48 \<le> (of_char c :: nat) \<and> (of_char c :: nat) \<le> 57)"

definition digitVal :: "char \<Rightarrow> nat" where
  "digitVal c = (of_char c :: nat) - 48"

definition digitsVal :: "string \<Rightarrow> nat" where
  "digitsVal ds = foldl (\<lambda>a c. 10 * a + digitVal c) 0 ds"

text \<open>\<open>m \<times> 10\<^sup>e\<close> for an integer exponent.\<close>

definition scale10 :: "rat \<Rightarrow> int \<Rightarrow> rat" where
  "scale10 m e = (if 0 \<le> e then m * 10 ^ nat e else m / 10 ^ nat (- e))"

text \<open>
  The exponent part \<open>e\<close> or \<open>E\<close>, an optional sign, and digits.  It is read only when at
  least one digit follows; otherwise nothing is consumed.
\<close>

definition scanExponent :: "string \<Rightarrow> int \<times> string" where
  "scanExponent s =
     (case s of
        [] \<Rightarrow> (0, s)
      | c # r \<Rightarrow>
          if c = CHR ''e'' \<or> c = CHR ''E'' then
            (let (sgn, r') =
                   (case r of
                      [] \<Rightarrow> (1, r)
                    | d # t \<Rightarrow>
                        if d = CHR ''+'' then (1, t)
                        else if d = CHR ''-'' then (- 1, t)
                        else (1, r));
                 ds = takeWhile isDigit r'
             in if ds = [] then (0, s)
                else (sgn * int (digitsVal ds), dropWhile isDigit r'))
          else (0, s))"

text \<open>
  The longest prefix that is an unsigned decimal literal: \<open>Infinity\<close>, or digits with
  an optional fraction and exponent, or a fraction that starts with the point.  The result
  is the value and the rest of the text; \<open>None\<close> when no prefix is a literal.
\<close>

definition scanUnsigned :: "string \<Rightarrow> (jsnum \<times> string) option" where
  "scanUnsigned s =
     (if take 8 s = ''Infinity'' then Some (PosInf, drop 8 s)
      else
        (let ip = takeWhile isDigit s;
             r1 = dropWhile isDigit s;
             (fp, r2) =
               (case r1 of
                  [] \<Rightarrow> ([], r1)
                | c # t \<Rightarrow>
                    if c = CHR ''.'' then (takeWhile isDigit t, dropWhile isDigit t)
                    else ([], r1))
         in if ip = [] \<and> fp = [] then None
            else
              (let (e, r3) = scanExponent r2;
                   m = of_nat (digitsVal ip) + of_nat (digitsVal fp) / 10 ^ length fp
               in Some (Fin (scale10 m e), r3))))"

text \<open>An optional sign in front of an unsigned literal.\<close>

definition scanSigned :: "string \<Rightarrow> (jsnum \<times> string) option" where
  "scanSigned t =
     (let (neg, u) =
            (case t of
               [] \<Rightarrow> (False, t)
             | c # r \<Rightarrow>
                 if c = CHR ''-'' then (True, r)
                 else if c = CHR ''+'' then (False, r)
                 else (False, t))
      in case scanUnsigned u of
           None \<Rightarrow> None
         | Some (v, rest) \<Rightarrow> Some (if neg then negate v else v, rest))"

text \<open>
  \<open>parseFloat\<close> on a string: leading white space is dropped, the longest numeric prefix
  is read, whatever follows it is ignored, and a text with no numeric prefix gives NaN.
\<close>

definition parseFloat_str :: "string \<Rightarrow> jsnum" where
  "parseFloat_str s =
     (case scanSigned (dropWhile isWhiteSpace s) of
        None \<Rightarrow> NaN
      | Some (v, _) \<Rightarrow> v)"

section \<open>The response body\<close>

text \<open>
  What \<open>response.json()\<close> resolves to.  The members of an object are in the order of the
  text; with a repeated key the last member is the one a property read sees.
\<close>

datatype json =
    JNull
  | JBool bool
  | JNum rat
  | JStr string
  | JArr "json list"
  | JObj "(string \<times> json) list"

datatype error = NetworkError | HttpError | SyntaxError | TypeError | InvalidCoordinates | HostError

text \<open>
  \<open>data.key\<close>.  Reading a property of \<open>null\<close> throws; an object gives the member or
  \<open>undefined\<close> (\<open>None\<close>); a boolean, a number, a string or an array has no property of
  the two names the program reads.
\<close>

fun getProp :: "json \<Rightarrow> string \<Rightarrow> error + json option" where
  "getProp JNull k = Inl TypeError"
| "getProp (JObj kvs) k = Inr (map_of (rev kvs) k)"
| "getProp _ k = Inr None"

text \<open>
  \<open>parseFloat\<close> of a value first turns it into text.  \<open>undefined\<close>, \<open>null\<close>, a boolean
  and an object give the texts \<open>undefined\<close>, \<open>null\<close>, \<open>true\<close>, \<open>false\<close> and
  \<open>[object Object]\<close>.  The text of a number reads back as that number.  The text of an
  array joins the texts of its elements with commas, \<open>null\<close> giving the empty text; a comma
  ends every numeric prefix, so the result is that of the first element, and NaN for
  the empty array or a leading \<open>null\<close>.
\<close>

fun parseFloat :: "json option \<Rightarrow> jsnum" where
  "parseFloat None = parseFloat_str ''undefined''"
| "parseFloat (Some JNull) = parseFloat_str ''null''"
| "parseFloat (Some (JBool b)) = parseFloat_str (if b then ''true'' else ''false'')"
| "parseFloat (Some (JNum q)) = Fin q"
| "parseFloat (Some (JStr s)) = parseFloat_str s"
| "parseFloat (Some (JObj kvs)) = parseFloat_str ''[object Object]''"
| "parseFloat (Some (JArr [])) = parseFloat_str ''''"
| "parseFloat (Some (JArr (JNull # xs))) = parseFloat_str '',''"
| "parseFloat (Some (JArr (x # xs))) = parseFloat (Some x)"

section \<open>4\<times>4 matrices of the 3D engine\<close>

text \<open>
  A \<open>Matrix4\<close> holds sixteen numbers, column after column: the constructor's arguments
  are \<open>elements[0]\<close> to \<open>elements[15]\<close>, and the entry of row \<open>i\<close> and column \<open>j\<close> is
  \<open>elements[i + 4 * j]\<close>.  Numbers of the render path are real numbers.
\<close>

datatype mat4 = Mat4 real real real real  real real real real
                     real real real real  real real real real

text \<open>\<open>new THREE.Matrix4()\<close>.\<close>

definition identity4 :: mat4 where
  "identity4 = Mat4 1 0 0 0  0 1 0 0  0 0 1 0  0 0 0 1"

text \<open>\<open>makeTranslation(x, y, z)\<close> overwrites the matrix: the identity with the last column \<open>x y z 1\<close>.\<close>

definition makeTranslation :: "real \<Rightarrow> real \<Rightarrow> real \<Rightarrow> mat4" where
  "makeTranslation x y z = Mat4 1 0 0 0  0 1 0 0  0 0 1 0  x y z 1"

text \<open>\<open>m.scale(v)\<close> multiplies the first three columns by \<open>v.x\<close>, \<open>v.y\<close> and \<open>v.z\<close>.\<close>

fun Matrix4_scale :: "mat4 \<Rightarrow> real \<times> real \<times> real \<Rightarrow> mat4" where
  "Matrix4_scale (Mat4 a0 a1 a2 a3 a4 a5 a6 a7 a8 a9 a10 a11 a12 a13 a14 a15) (x, y, z) =
     Mat4 (a0 * x) (a1 * x) (a2 * x) (a3 * x)
          (a4 * y) (a5 * y) (a6 * y) (a7 * y)
          (a8 * z) (a9 * z) (a10 * z) (a11 * z)
          a12 a13 a14 a15"

text \<open>\<open>a.multiply(b)\<close> is \<open>multiplyMatrices(a, b)\<close>, written out entry by entry.\<close>

fun multiply :: "mat4 \<Rightarrow> mat4 \<Rightarrow> mat4" where
  "multiply (Mat4 a0 a1 a2 a3 a4 a5 a6 a7 a8 a9 a10 a11 a12 a13 a14 a15)
            (Mat4 b0 b1 b2 b3 b4 b5 b6 b7 b8 b9 b10 b11 b12 b13 b14 b15) =
     Mat4 (a0 * b0 + a4 * b1 + a8 * b2 + a12 * b3)
          (a1 * b0 + a5 * b1 + a9 * b2 + a13 * b3)
          (a2 * b0 + a6 * b1 + a10 * b2 + a14 * b3)
          (a3 * b0 + a7 * b1 + a11 * b2 + a15 * b3)
          (a0 * b4 + a4 * b5 + a8 * b6 + a12 * b7)
          (a1 * b4 + a5 * b5 + a9 * b6 + a13 * b7)
          (a2 * b4 + a6 * b5 + a10 * b6 + a14 * b7)
          (a3 * b4 + a7 * b5 + a11 * b6 + a15 * b7)
          (a0 * b8 + a4 * b9 + a8 * b10 + a12 * b11)
          (a1 * b8 + a5 * b9 + a9 * b10 + a13 * b11)
          (a2 * b8 + a6 * b9 + a10 * b10 + a14 * b11)
          (a3 * b8 + a7 * b9 + a11 * b10 + a15 * b11)
          (a0 * b12 + a4 * b13 + a8 * b14 + a12 * b15)
          (a1 * b12 + a5 * b13 + a9 * b14 + a13 * b15)
          (a2 * b12 + a6 * b13 + a10 * b14 + a14 * b15)
          (a3 * b12 + a7 * b13 + a11 * b14 + a15 * b15)"

text \<open>
  \<open>fromArray(matrix)\<close> copies sixteen numbers.  The host passes its camera matrix as an
  array of sixteen numbers, which is the type \<open>mat4\<close> here.
\<close>

definition fromArray :: "mat4 \<Rightarrow> mat4" where
  "fromArray m = m"


subsection \<open>The matrices the specification names\<close>





section \<open>The state of the page\<close>

record position =
  lng :: jsnum
  lat :: jsnum

text \<open>
  What \<open>mapboxgl.MercatorCoordinate.fromLngLat\<close> returns: the coordinates and the value
  of its method \<open>meterInMercatorCoordinateUnits()\<close>.  The host's projection is not part
  of the program: \<open>render\<close> takes it as the parameter \<open>fromLngLat\<close>.  The projection
  may throw instead of returning (the map library does for a latitude that is NaN or
  outside \<open>[-90, 90]\<close>), so its result is an error or a coordinate.
\<close>

record mercator =
  merc_x :: real
  merc_y :: real
  merc_z :: real
  meterInMercatorCoordinateUnits :: real

type_synonym host = "position \<Rightarrow> real \<Rightarrow> error + mercator"

record modelTransform =
  translateX :: real
  translateY :: real
  translateZ :: real
  scale :: real

datatype modelKind = Primary | Fallback

record object3d =
  matrix :: mat4
  matrixAutoUpdate :: bool

record model3d = object3d +
  kind :: modelKind
  children :: nat
  scaleScalar :: real

datatype sceneItem = AmbientLight | DirectionalLight | TestCube | IssModel modelKind

text \<open>A call of \<open>renderer.render(scene, camera)\<close>: the scene drawn and the camera's projection.\<close>

type_synonym draw = "sceneItem list \<times> mat4"

record app =
  issPosition :: "position option"
  issModel :: "model3d option"
  testCube :: "object3d option"
  projectionMatrix :: mat4
  scene :: "sceneItem list"
  draws :: "draw list"
  repaints :: nat
  markerSource :: "(jsnum \<times> jsnum) option"
  isFollowingISS :: bool
  mapCenter :: "jsnum \<times> jsnum"
  mapZoom :: real
  panelPosition :: "position option"
  statusDot :: string
  statusText :: string
  console :: "string list"
  layerAdded :: bool
  uncaught :: "error list"

text \<open>
  The page as the script leaves it, the console apart: no position, no layer, no marker
  source, the map at zoom 1.5 over \<open>[0, 0]\<close>, and the status \<open>connecting\<close> that
  \<open>initializeUI\<close> sets.  The elements of the page that the script looks up are taken to
  be there.  \<open>uncaught\<close> collects the errors that a callback of the page has let out to
  its caller.
\<close>

definition init :: app where
  "init = \<lparr> issPosition = None, issModel = None, testCube = None,
            projectionMatrix = identity4, scene = [], draws = [], repaints = 0,
            markerSource = None, isFollowingISS = False,
            mapCenter = (Fin 0, Fin 0), mapZoom = 1.5, panelPosition = None,
            statusDot = ''connecting'', statusText = ''Connecting...'',
            console = [], layerAdded = False, uncaught = [] \<rparr>"

section \<open>The custom layer\<close>

text \<open>
  \<open>onAdd\<close>: a camera, a scene with two lights and the test cube, the renderer, and the
  request for the model file, whose answer comes later as a call of one of the two
  callbacks below.
\<close>

definition onAdd :: "app \<Rightarrow> app" where
  "onAdd s = s\<lparr> projectionMatrix := identity4,
                scene := [AmbientLight, DirectionalLight, TestCube],
                testCube := Some \<lparr> matrix = identity4, matrixAutoUpdate = True \<rparr>,
                console := console s @ [''Added magenta test cube for verification'',
                                        ''Starting ISS GLB model loading''],
                layerAdded := True \<rparr>"

text \<open>
  The loader's success callback, for a file whose scene has \<open>n\<close> children: the scene of
  the file becomes the model, scaled to 0.1, with a red cube and a wire box added.  The
  bounding box taken after the scaling refreshes the matrix of the model, which is then
  the scaling by 0.1.
\<close>

definition onLoad :: "nat \<Rightarrow> app \<Rightarrow> app" where
  "onLoad n s = s\<lparr> issModel := Some \<lparr> matrix = Mat4 0.1 0 0 0  0 0.1 0 0  0 0 0.1 0  0 0 0 1,
                                      matrixAutoUpdate = True,
                                      kind = Primary, children = n + 2, scaleScalar = 0.1 \<rparr>,
                   scene := scene s @ [IssModel Primary],
                   console := console s @ [''ISS GLB model added to scene successfully''] \<rparr>"

text \<open>
  \<open>createISSModel\<close>: a group of eight meshes (the truss, four panels, two modules and
  the marker), scaled to 0.1.
\<close>

definition createISSModel :: model3d where
  "createISSModel = \<lparr> matrix = identity4, matrixAutoUpdate = True,
                      kind = Fallback, children = 8, scaleScalar = 0.1 \<rparr>"

text \<open>The loader's error callback.\<close>

definition onError :: "app \<Rightarrow> app" where
  "onError s = s\<lparr> issModel := Some createISSModel,
                  scene := scene s @ [IssModel Fallback],
                  console := console s @ [''CRITICAL: Failed to load ISS GLB model'',
                                          ''Falling back to procedural model...'',
                                          ''Fallback procedural model created and added''] \<rparr>"

text \<open>The altitude \<open>render\<close> uses for every frame.\<close>

definition altitude :: real where
  "altitude = 800000"

text \<open>\<open>this.issPosition || { lng: 0, lat: 0 }\<close>.\<close>

definition currentPosition :: "app \<Rightarrow> position" where
  "currentPosition s =
     (case issPosition s of None \<Rightarrow> \<lparr> lng = Fin 0, lat = Fin 0 \<rparr> | Some p \<Rightarrow> p)"

text \<open>
  The object \<open>modelTransform\<close> of \<open>render\<close>, or the error that \<open>fromLngLat\<close> throws;
  \<open>z || 0\<close> is \<open>0\<close> when \<open>z\<close> is zero and \<open>z\<close> otherwise.
\<close>

definition project :: "host \<Rightarrow> position \<Rightarrow> real \<Rightarrow> error + modelTransform" where
  "project fromLngLat p alt =
     (case fromLngLat p alt of
        Inl e \<Rightarrow> Inl e
      | Inr modelAsMercator \<Rightarrow>
          Inr \<lparr> translateX = merc_x modelAsMercator,
                translateY = merc_y modelAsMercator,
                translateZ = (if merc_z modelAsMercator = 0 then 0 else merc_z modelAsMercator),
                scale = meterInMercatorCoordinateUnits modelAsMercator \<rparr>)"

text \<open>
  \<open>render\<close>, for one frame.  \<open>rnd\<close> is what \<open>Math.random()\<close> returns in this call (each
  path calls it once, to decide on a log line).  The function has no \<open>try\<close>: an error
  that \<open>fromLngLat\<close> throws leaves \<open>render\<close>, before anything is assigned or drawn.  The
  other calls of the engine and of the host in it (the matrices, the renderer,
  \<open>triggerRepaint\<close>) are taken to return.
\<close>

definition render :: "host \<Rightarrow> real \<Rightarrow> mat4 \<Rightarrow> app \<Rightarrow> error + app" where
  "render fromLngLat rnd m s =
     (case issModel s of
        None \<Rightarrow>
          Inr (if rnd < 0.01
               then s\<lparr> console := console s @ [''Render skipped - ISS model not loaded yet''] \<rparr>
               else s)
      | Some mdl \<Rightarrow>
          (case project fromLngLat (currentPosition s) altitude of
             Inl e \<Rightarrow> Inl e
           | Inr t \<Rightarrow>
               (let logged = (if rnd < 0.001 then console s @ [''Render transform''] else console s);
                    modelMatrix =
                      Matrix4_scale (makeTranslation (translateX t) (translateY t) (translateZ t))
                        (scale t, - scale t, scale t);
                    world = multiply (fromArray m) modelMatrix;
                    cube =
                      (case testCube s of
                         None \<Rightarrow> None
                       | Some c \<Rightarrow> Some (c\<lparr> matrix := world, matrixAutoUpdate := False \<rparr>))
                in Inr (s\<lparr> issModel := Some (mdl\<lparr> matrix := world, matrixAutoUpdate := False \<rparr>),
                           testCube := cube,
                           projectionMatrix := fromArray m,
                           draws := draws s @ [(scene s, fromArray m)],
                           repaints := repaints s + 1,
                           console := logged \<rparr>))))"

text \<open>
  What a call of \<open>render\<close> leaves behind: the new page, or the page as it was when the
  call threw.  What a call shows of the matrices: the error, or the matrix of the model
  and the projection of the camera.
\<close>

definition afterFrame :: "app \<Rightarrow> error + app \<Rightarrow> app" where
  "afterFrame s r = (case r of Inl e \<Rightarrow> s | Inr s' \<Rightarrow> s')"

definition outcome :: "error + app \<Rightarrow> error + (mat4 option \<times> mat4)" where
  "outcome r =
     (case r of
        Inl e \<Rightarrow> Inl e
      | Inr s' \<Rightarrow> Inr (map_option matrix (issModel s'), projectionMatrix s'))"

section \<open>The position feed\<close>

text \<open>
  What one \<open>fetch\<close> comes to: the promise is rejected, or there is a response with its
  \<open>ok\<close> flag and its body (\<open>None\<close> when the body is not JSON, so that \<open>response.json()\<close>
  is rejected).
\<close>

datatype response = Rejected | Response bool "json option"

text \<open>The \<open>catch\<close> block.\<close>

definition fetchFailed :: "app \<Rightarrow> app" where
  "fetchFailed s = s\<lparr> statusDot := ''error'', statusText := ''Connection Error'',
                      console := console s @ [''Error fetching ISS position''] \<rparr>"

text \<open>
  The \<open>try\<close> block up to the validation: the position read from the body, or the error
  thrown.
\<close>

definition readPosition :: "response \<Rightarrow> error + position" where
  "readPosition r =
     (case r of
        Rejected \<Rightarrow> Inl NetworkError
      | Response ok body \<Rightarrow>
          if \<not> ok then Inl HttpError
          else
            (case body of
               None \<Rightarrow> Inl SyntaxError
             | Some data \<Rightarrow>
                 (case getProp data ''longitude'' of
                    Inl e \<Rightarrow> Inl e
                  | Inr lo \<Rightarrow>
                      (case getProp data ''latitude'' of
                         Inl e \<Rightarrow> Inl e
                       | Inr la \<Rightarrow>
                           (let p = \<lparr> lng = parseFloat lo, lat = parseFloat la \<rparr>
                            in if isNaN (lng p) \<or> isNaN (lat p) then Inl InvalidCoordinates
                               else Inr p)))))"

text \<open>
  The rest of the \<open>try\<close> block: the layer's position, the marker when its source exists,
  the map when following is on, the panel, the status, a repaint and a log line.
\<close>

definition publish :: "position \<Rightarrow> app \<Rightarrow> app" where
  "publish p s =
     s\<lparr> issPosition := Some p,
        markerSource := (case markerSource s of None \<Rightarrow> None | Some c \<Rightarrow> Some (lng p, lat p)),
        mapCenter := (if isFollowingISS s then (lng p, lat p) else mapCenter s),
        mapZoom := (if isFollowingISS s then max (mapZoom s) 3 else mapZoom s),
        panelPosition := Some p,
        statusDot := ''connected'', statusText := ''ISS Connected'',
        repaints := repaints s + 1,
        console := console s @ [''ISS Position''] \<rparr>"

text \<open>\<open>fetchIssPosition\<close>, from the moment its \<open>fetch\<close> is answered.\<close>

definition fetchIssPosition :: "response \<Rightarrow> app \<Rightarrow> app" where
  "fetchIssPosition r s =
     (case readPosition r of
        Inl e \<Rightarrow> fetchFailed s
      | Inr p \<Rightarrow> publish p s)"

section \<open>The controls\<close>

text \<open>
  Two seconds after the map has loaded, the loading screen goes and the status is set to
  \<open>connected\<close>, whatever the feed has done.
\<close>

definition hideLoadingScreen :: "app \<Rightarrow> app" where
  "hideLoadingScreen s = s\<lparr> statusDot := ''connected'', statusText := ''ISS Connected'' \<rparr>"

definition toggleFollowISS :: "app \<Rightarrow> app" where
  "toggleFollowISS s =
     (let f = (\<not> isFollowingISS s)
      in s\<lparr> isFollowingISS := f,
            statusDot := ''connected'',
            statusText := (if f then ''Following ISS'' else ''ISS Connected''),
            console := console s @ [if f then ''Started following ISS'' else ''Stopped following ISS''] \<rparr>)"

definition resetMapView :: "app \<Rightarrow> app" where
  "resetMapView s =
     s\<lparr> mapCenter := (Fin 0, Fin 0), mapZoom := 1.5, isFollowingISS := False,
        statusDot := ''connected'', statusText := ''ISS Connected'',
        console := console s @ [''Map view reset''] \<rparr>"

section \<open>What happens to the page\<close>

text \<open>
  The map's \<open>load\<close> event, which comes once, adds the layer (the host then calls
  \<open>onAdd\<close>) and the marker source at \<open>[0, 0]\<close>; the loader calls one of its callbacks,
  and neither callback looks at what has been loaded before; the host draws a frame by
  calling \<open>render\<close> of a layer it has added, and an error that \<open>render\<close> throws goes to
  the host and leaves the page as it was; a poll is answered; the loading screen goes;
  the user toggles the following or resets the view (by button or by key).
\<close>

datatype event =
    MapLoad
  | AssetLoaded nat
  | AssetFailed
  | Frame real mat4
  | PollDone response
  | LoadingScreenHidden
  | FollowToggled
  | ViewReset

fun step :: "host \<Rightarrow> app \<Rightarrow> event \<Rightarrow> app" where
  "step h s MapLoad =
     (if layerAdded s then s else (onAdd s)\<lparr> markerSource := Some (Fin 0, Fin 0) \<rparr>)"
| "step h s (AssetLoaded n) = onLoad n s"
| "step h s AssetFailed = onError s"
| "step h s (Frame rnd m) =
     (if layerAdded s
      then (case render h rnd m s of
              Inl e \<Rightarrow> s\<lparr> uncaught := uncaught s @ [e] \<rparr>
            | Inr s' \<Rightarrow> s')
      else s)"
| "step h s (PollDone r) = fetchIssPosition r s"
| "step h s LoadingScreenHidden = hideLoadingScreen s"
| "step h s FollowToggled = toggleFollowISS s"
| "step h s ViewReset = resetMapView s"

definition run :: "host \<Rightarrow> event list \<Rightarrow> app \<Rightarrow> app" where
  "run h es s = foldl (step h) s es"

datatype readiness = Loading | ReadyPrimary | ReadyFallback

definition modelReadiness :: "app \<Rightarrow> readiness" where
  "modelReadiness s =
     (case issModel s of
        None \<Rightarrow> Loading
      | Some mdl \<Rightarrow> (case kind mdl of Primary \<Rightarrow> ReadyPrimary | Fallback \<Rightarrow> ReadyFallback))"

text \<open>How many times the fallback has been put into the scene.\<close>

definition fallbackCount :: "app \<Rightarrow> nat" where
  "fallbackCount s = length (filter (\<lambda>x. x = IssModel Fallback) (scene s))"

fun isFrame :: "event \<Rightarrow> bool" where
  "isFrame (Frame rnd m) = True"
| "isFrame _ = False"

text \<open>The two events of the loader.\<close>

fun isAsset :: "event \<Rightarrow> bool" where
  "isAsset (AssetLoaded n) = True"
| "isAsset AssetFailed = True"
| "isAsset _ = False"

section \<open>Start of the page and the timer\<close>

text \<open>
  The two settings the script reads from the environment; a setting that is not there is
  \<open>undefined\<close> (\<open>None\<close>).  \<open>!v\<close> holds of \<open>undefined\<close> and of the empty text.
\<close>

record config =
  apiUrl :: "string option"
  accessToken :: "string option"

definition falsy :: "string option \<Rightarrow> bool" where
  "falsy v = (case v of None \<Rightarrow> True | Some t \<Rightarrow> t = [])"

text \<open>
  The page in time, in milliseconds: every call of \<open>fetch\<close> with its time and its URL,
  the fetches not yet answered with the time of their answer, and the period of every
  \<open>setInterval(fetchIssPosition, period)\<close>.  The network decides, for the \<open>k\<close>-th fetch,
  how long after the next millisecond the answer comes and what it is.
\<close>

record page =
  world :: app
  alerts :: "string list"
  fetches :: "(nat \<times> string option) list"
  inflight :: "(nat \<times> response) list"
  intervals :: "nat list"

type_synonym network = "nat \<Rightarrow> nat \<times> response"

text \<open>A call of \<open>fetchIssPosition\<close> at time \<open>t\<close>, up to its \<open>await\<close>.\<close>

definition callFetch :: "network \<Rightarrow> config \<Rightarrow> nat \<Rightarrow> page \<Rightarrow> page" where
  "callFetch net cfg t pg =
     (let k = length (fetches pg)
      in pg\<lparr> fetches := fetches pg @ [(t, apiUrl cfg)],
             inflight := inflight pg @ [(t + Suc (fst (net k)), snd (net k))] \<rparr>)"

text \<open>
  The script, run once at time 0: the two checks of the settings, the first call of
  \<open>fetchIssPosition\<close>, the timer, and the user interface.
\<close>

definition main :: "network \<Rightarrow> config \<Rightarrow> page" where
  "main net cfg =
     (let noToken = (falsy (accessToken cfg) \<or> accessToken cfg = Some ''YOUR_MAPBOX_ACCESS_TOKEN'');
          c1 = (if noToken then [''Missing Mapbox access token! Please set VITE_MAPBOX_ACCESS_TOKEN in your .env file''] else []);
          a1 = (if noToken then [''Missing Mapbox access token! Please check your .env file.''] else []);
          c2 = (if falsy (apiUrl cfg) then [''Missing ISS API URL! Please set VITE_ISS_API_URL in your .env file''] else []);
          pg = \<lparr> world = init\<lparr> console := c1 @ c2 \<rparr>, alerts = a1, fetches = [], inflight = [],
                 intervals = [] \<rparr>;
          pg1 = callFetch net cfg 0 pg;
          pg2 = pg1\<lparr> intervals := intervals pg1 @ [2000] \<rparr>
      in pg2\<lparr> world := (world pg2)\<lparr> console := console (world pg2) @
                 [''Responsive UI initialized'', ''Responsive ISS Tracker initialized successfully!''] \<rparr> \<rparr>)"

text \<open>
  What the event loop does at time \<open>t\<close>: the answers that are due go through
  \<open>fetchIssPosition\<close>, then every timer whose period divides \<open>t\<close> calls it again.
\<close>

definition tick :: "network \<Rightarrow> config \<Rightarrow> nat \<Rightarrow> page \<Rightarrow> page" where
  "tick net cfg t pg =
     (let due = filter (\<lambda>cr. fst cr \<le> t) (inflight pg);
          later = filter (\<lambda>cr. \<not> fst cr \<le> t) (inflight pg);
          pg1 = pg\<lparr> world := foldl (\<lambda>w cr. fetchIssPosition (snd cr) w) (world pg) due,
                    inflight := later \<rparr>
      in foldl (\<lambda>q p. if t mod p = 0 then callFetch net cfg t q else q) pg1 (intervals pg1))"

fun runUntil :: "network \<Rightarrow> config \<Rightarrow> nat \<Rightarrow> page" where
  "runUntil net cfg 0 = main net cfg"
| "runUntil net cfg (Suc t) = tick net cfg (Suc t) (runUntil net cfg t)"

section \<open>Words of the specification\<close>

text \<open>The invariant the specification gives for a position: both coordinates finite and in range.\<close>

fun inRange :: "rat \<Rightarrow> jsnum \<Rightarrow> bool" where
  "inRange b (Fin q) = (- b \<le> q \<and> q \<le> b)"
| "inRange b _ = False"

definition validPosition :: "position \<Rightarrow> bool" where
  "validPosition p = (inRange 90 (lat p) \<and> inRange 180 (lng p))"

text \<open>
  A numeric value is a number, or a string that is a decimal number from end to end
  (white space around it apart); every other value is non-numeric.
\<close>

definition numericString :: "string \<Rightarrow> bool" where
  "numericString s =
     (case scanSigned (dropWhile isWhiteSpace s) of
        None \<Rightarrow> False
      | Some (v, rest) \<Rightarrow> dropWhile isWhiteSpace rest = [])"

text \<open>
  The field of a payload: the member of that name of an object; there is none in a
  payload that is not an object.
\<close>

definition field :: "json \<Rightarrow> string \<Rightarrow> json option" where
  "field data k = (case getProp data k of Inl e \<Rightarrow> None | Inr v \<Rightarrow> v)"

fun numeric :: "json option \<Rightarrow> bool" where
  "numeric (Some (JNum q)) = True"
| "numeric (Some (JStr s)) = numericString s"
| "numeric _ = False"

section \<open>Invariants of the layer\<close>

text \<open>As long as the loader has not called back, there is no model and no fallback in the scene.\<close>

definition loadingInv :: "app \<Rightarrow> bool" where
  "loadingInv s = (issModel s = None \<and> fallbackCount s = 0 \<and> uncaught s = [])"

text \<open>Once the error callback has run: the fallback is the model, and it is in the scene once.\<close>

definition fallbackInv :: "app \<Rightarrow> bool" where
  "fallbackInv s =
     (layerAdded s \<and> modelReadiness s = ReadyFallback \<and> fallbackCount s = 1)"

section \<open>Inputs of the examples\<close>

text \<open>
  A host for the examples, with the check that the map library makes of a coordinate: it
  throws for a coordinate that is NaN and for a latitude outside \<open>[-90, 90]\<close>.
  Otherwise it gives the Mercator \<open>x\<close> of the longitude, the \<open>y\<close> of the equator, and
  a round number for the length of the equator in metres.
\<close>

definition sampleHost :: host where
  "sampleHost p a =
     (if isNaN (lng p) \<or> isNaN (lat p) \<or> \<not> inRange 90 (lat p) then Inl HostError
      else Inr \<lparr> merc_x = (case lng p of Fin q \<Rightarrow> (180 + of_rat q) / 360 | _ \<Rightarrow> 1 / 2),
                 merc_y = 1 / 2,
                 merc_z = a / 40000000,
                 meterInMercatorCoordinateUnits = 1 / 40000000 \<rparr>)"

definition sampleCamera :: mat4 where
  "sampleCamera = Mat4 2 0 0 0  0 2 0 0  0 0 2 0  1 1 1 1"

definition noUrl :: config where
  "noUrl = \<lparr> apiUrl = None, accessToken = Some ''pk.token'' \<rparr>"

definition deadNetwork :: network where
  "deadNetwork k = (0, Rejected)"

section \<open>Properties of the position feed\<close>

lemma parseFloat_undefined: "parseFloat None = NaN"
  by code_simp

lemma readPosition_not_NaN:
  "readPosition r = Inr p \<Longrightarrow> \<not> isNaN (lng p) \<and> \<not> isNaN (lat p)"
  by (auto simp: readPosition_def Let_def split: response.splits if_splits option.splits sum.splits)

text \<open>What the \<open>try\<close> block makes of a body, in terms of its two fields.\<close>

lemma readPosition_body:
  "readPosition (Response True (Some data)) =
     (if data = JNull then Inl TypeError
      else if isNaN (parseFloat (field data ''longitude'')) \<or> isNaN (parseFloat (field data ''latitude''))
      then Inl InvalidCoordinates
      else Inr \<lparr> lng = parseFloat (field data ''longitude''),
                 lat = parseFloat (field data ''latitude'') \<rparr>)"
  by (cases data) (simp_all add: readPosition_def field_def Let_def)

lemma field_JNull: "field JNull k = None"
  by (simp add: field_def)

lemma issPosition_fetchFailed: "issPosition (fetchFailed s) = issPosition s"
  by (simp add: fetchFailed_def)

lemma statusDot_fetchFailed: "statusDot (fetchFailed s) = ''error''"
  by (simp add: fetchFailed_def)

lemma issPosition_publish: "issPosition (publish p s) = Some p"
  by (simp add: publish_def)

lemma statusDot_publish: "statusDot (publish p s) = ''connected''"
  by (simp add: publish_def)

text \<open>A literal is never read as NaN, so a numeric value is never parsed to NaN.\<close>

lemma scanUnsigned_not_NaN: "scanUnsigned t = Some (v, rest) \<Longrightarrow> v = PosInf \<or> (\<exists>q. v = Fin q)"
  by (auto simp: scanUnsigned_def Let_def split: if_splits prod.splits)

lemma scanSigned_not_NaN: "scanSigned t = Some (v, rest) \<Longrightarrow> \<not> isNaN v"
proof -
  assume a: "scanSigned t = Some (v, rest)"
  then obtain neg u w where u: "scanUnsigned u = Some (w, rest)" and v: "v = (if neg then negate w else w)"
    by (auto simp: scanSigned_def Let_def split: prod.splits option.splits)
  from scanUnsigned_not_NaN [OF u] v show ?thesis by auto
qed

lemma numeric_not_NaN: "numeric v \<Longrightarrow> \<not> isNaN (parseFloat v)"
proof (cases v)
  case None
  assume "numeric v"
  then show ?thesis using None by simp
next
  case (Some j)
  assume n: "numeric v"
  show ?thesis
  proof (cases j)
    case (JStr t)
    with n Some obtain w rest where "scanSigned (dropWhile isWhiteSpace t) = Some (w, rest)"
      by (auto simp: numericString_def split: option.splits)
    then show ?thesis
      using Some JStr scanSigned_not_NaN by (simp add: parseFloat_str_def)
  qed (use n Some in simp_all)
qed

text \<open>
  Claim C1, as the specification states it, fails: the feed checks the two parsed
  coordinates with \<open>isNaN\<close> and with nothing else.  A body with latitude \<open>"91"\<close> and
  longitude \<open>"Infinity"\<close> is published, a latitude out of range beside a longitude that is
  not finite.
\<close>

theorem feed_publishes_out_of_range:
  "issPosition (fetchIssPosition
       (Response True (Some (JObj [(''latitude'', JStr ''91''), (''longitude'', JStr ''Infinity'')])))
       init)
     = Some \<lparr> lng = PosInf, lat = Fin 91 \<rparr>
   \<and> \<not> validPosition \<lparr> lng = PosInf, lat = Fin 91 \<rparr>"
  by code_simp

text \<open>
  Claim C1, amended: a poll leaves the published position as it was, or replaces it by a
  position whose two coordinates are not NaN; and a body one of whose parsed coordinates
  is NaN is not published.
\<close>

theorem feed_validates_not_NaN:
  "(issPosition (fetchIssPosition r s) = issPosition s
     \<or> (\<exists>p. issPosition (fetchIssPosition r s) = Some p \<and> \<not> isNaN (lng p) \<and> \<not> isNaN (lat p)))
   \<and> (isNaN (parseFloat (field data ''longitude'')) \<or> isNaN (parseFloat (field data ''latitude'')) \<longrightarrow>
         issPosition (fetchIssPosition (Response ok (Some data)) s) = issPosition s)"
proof (intro conjI impI)
  show "issPosition (fetchIssPosition r s) = issPosition s
     \<or> (\<exists>p. issPosition (fetchIssPosition r s) = Some p \<and> \<not> isNaN (lng p) \<and> \<not> isNaN (lat p))"
  proof (cases "readPosition r")
    case (Inl e)
    then show ?thesis by (simp add: fetchIssPosition_def issPosition_fetchFailed)
  next
    case (Inr p)
    then show ?thesis
      using readPosition_not_NaN [OF Inr] by (simp add: fetchIssPosition_def issPosition_publish)
  qed
next
  assume nan: "isNaN (parseFloat (field data ''longitude'')) \<or> isNaN (parseFloat (field data ''latitude''))"
  show "issPosition (fetchIssPosition (Response ok (Some data)) s) = issPosition s"
  proof (cases ok)
    case True
    with nan have "\<exists>e. readPosition (Response ok (Some data)) = Inl e"
      by (simp add: readPosition_body)
    then show ?thesis by (auto simp: fetchIssPosition_def issPosition_fetchFailed)
  next
    case False
    then show ?thesis by (simp add: fetchIssPosition_def readPosition_def issPosition_fetchFailed)
  qed
qed

text \<open>
  The amended claim at work: after a first good poll, a body whose latitude is the text
  \<open>"north"\<close> leaves the published position where it was.
\<close>

theorem feed_validates_not_NaN_witness:
  "isNaN (parseFloat (field (JObj [(''latitude'', JStr ''north''), (''longitude'', JNum 7)]) ''latitude''))
   \<and> issPosition (fetchIssPosition
        (Response True (Some (JObj [(''latitude'', JStr ''north''), (''longitude'', JNum 7)])))
        (publish \<lparr> lng = Fin 1, lat = Fin 2 \<rparr> init))
     = Some \<lparr> lng = Fin 1, lat = Fin 2 \<rparr>"
proof -
  have h: "isNaN (parseFloat (field (JObj [(''latitude'', JStr ''north''), (''longitude'', JNum 7)]) ''latitude''))"
    by code_simp
  then have h': "isNaN (parseFloat (field (JObj [(''latitude'', JStr ''north''), (''longitude'', JNum 7)]) ''longitude''))
      \<or> isNaN (parseFloat (field (JObj [(''latitude'', JStr ''north''), (''longitude'', JNum 7)]) ''latitude''))"
    by (rule disjI2)
  have "issPosition (fetchIssPosition
        (Response True (Some (JObj [(''latitude'', JStr ''north''), (''longitude'', JNum 7)])))
        (publish \<lparr> lng = Fin 1, lat = Fin 2 \<rparr> init))
     = issPosition (publish \<lparr> lng = Fin 1, lat = Fin 2 \<rparr> init)"
    using feed_validates_not_NaN [THEN conjunct2, rule_format, OF h'] .
  then show ?thesis using h by (simp add: issPosition_publish)
qed

text \<open>
  Claim C2, as the specification states it, fails: \<open>parseFloat\<close> reads the longest
  numeric prefix of the text of any value.  The string \<open>"51.6abc"\<close> and the array
  \<open>["-0.1"]\<close> are not numeric values, and a body that carries them is published and the
  status becomes \<open>connected\<close>.
\<close>

theorem feed_publishes_non_numeric:
  "field (JObj [(''latitude'', JStr ''51.6abc''), (''longitude'', JArr [JStr ''-0.1''])]) ''latitude''
       = Some (JStr ''51.6abc'')
   \<and> field (JObj [(''latitude'', JStr ''51.6abc''), (''longitude'', JArr [JStr ''-0.1''])]) ''longitude''
       = Some (JArr [JStr ''-0.1''])
   \<and> \<not> numeric (Some (JStr ''51.6abc''))
   \<and> \<not> numeric (Some (JArr [JStr ''-0.1'']))
   \<and> issPosition init = None
   \<and> issPosition (fetchIssPosition (Response True (Some
        (JObj [(''latitude'', JStr ''51.6abc''), (''longitude'', JArr [JStr ''-0.1''])]))) init)
       = Some \<lparr> lng = Fin (- 1 / 10), lat = Fin (516 / 10) \<rparr>
   \<and> statusDot (fetchIssPosition (Response True (Some
        (JObj [(''latitude'', JStr ''51.6abc''), (''longitude'', JArr [JStr ''-0.1''])]))) init)
       = ''connected''"
  by code_simp

text \<open>
  Claim C2, amended: when the body of a successful response lacks the latitude or the
  longitude field, or \<open>parseFloat\<close> of either field is NaN (its text has no numeric
  prefix), the published position after the poll is the one before it and the status is
  \<open>error\<close>.
\<close>

theorem feed_rejects_NaN_payload:
  assumes "field data ''latitude'' = None \<or> field data ''longitude'' = None
         \<or> isNaN (parseFloat (field data ''latitude'')) \<or> isNaN (parseFloat (field data ''longitude''))"
  shows "issPosition (fetchIssPosition (Response True (Some data)) s) = issPosition s
       \<and> statusDot (fetchIssPosition (Response True (Some data)) s) = ''error''"
proof -
  from assms have "isNaN (parseFloat (field data ''longitude'')) \<or> isNaN (parseFloat (field data ''latitude''))"
    using parseFloat_undefined by auto
  then have "\<exists>e. readPosition (Response True (Some data)) = Inl e"
    by (simp add: readPosition_body)
  then show ?thesis
    by (auto simp: fetchIssPosition_def issPosition_fetchFailed statusDot_fetchFailed)
qed

text \<open>The amended claim at a body with no latitude field, after a first good poll.\<close>

theorem feed_rejects_NaN_payload_witness:
  "field (JObj [(''longitude'', JStr ''12.5'')]) ''latitude'' = None
   \<and> issPosition (fetchIssPosition (Response True (Some (JObj [(''longitude'', JStr ''12.5'')])))
        (publish \<lparr> lng = Fin 1, lat = Fin 2 \<rparr> init))
       = Some \<lparr> lng = Fin 1, lat = Fin 2 \<rparr>
   \<and> statusDot (fetchIssPosition (Response True (Some (JObj [(''longitude'', JStr ''12.5'')])))
        (publish \<lparr> lng = Fin 1, lat = Fin 2 \<rparr> init))
       = ''error''"
proof -
  have h: "field (JObj [(''longitude'', JStr ''12.5'')]) ''latitude'' = None"
    by (simp add: field_def)
  then have h': "field (JObj [(''longitude'', JStr ''12.5'')]) ''latitude'' = None
         \<or> field (JObj [(''longitude'', JStr ''12.5'')]) ''longitude'' = None
         \<or> isNaN (parseFloat (field (JObj [(''longitude'', JStr ''12.5'')]) ''latitude''))
         \<or> isNaN (parseFloat (field (JObj [(''longitude'', JStr ''12.5'')]) ''longitude''))"
    by (rule disjI1)
  show ?thesis
    using feed_rejects_NaN_payload [OF h', of "publish \<lparr> lng = Fin 1, lat = Fin 2 \<rparr> init"] h
    by (simp add: issPosition_publish)
qed

text \<open>
  Claim C3: when the latitude and longitude fields of the body are numbers or numeric
  strings and in range, the poll publishes the position whose \<open>lat\<close> is the parsed latitude
  field and whose \<open>lng\<close> is the parsed longitude field, a position that meets the
  invariant of the data model, and sets the status to \<open>connected\<close>.
\<close>

theorem feed_publishes_parsed_fields:
  assumes "numeric (field data ''latitude'')" and "numeric (field data ''longitude'')"
    and "inRange 90 (parseFloat (field data ''latitude''))"
    and "inRange 180 (parseFloat (field data ''longitude''))"
  shows "issPosition (fetchIssPosition (Response True (Some data)) s)
           = Some \<lparr> lng = parseFloat (field data ''longitude''),
                     lat = parseFloat (field data ''latitude'') \<rparr>
       \<and> validPosition \<lparr> lng = parseFloat (field data ''longitude''),
                          lat = parseFloat (field data ''latitude'') \<rparr>
       \<and> statusDot (fetchIssPosition (Response True (Some data)) s) = ''connected''"
proof -
  have "data \<noteq> JNull"
    using assms(1) by (auto simp: field_JNull)
  moreover have "\<not> isNaN (parseFloat (field data ''longitude''))"
    "\<not> isNaN (parseFloat (field data ''latitude''))"
    using assms(1,2) by (simp_all add: numeric_not_NaN)
  ultimately have "readPosition (Response True (Some data))
               = Inr \<lparr> lng = parseFloat (field data ''longitude''),
                       lat = parseFloat (field data ''latitude'') \<rparr>"
    by (simp add: readPosition_body)
  then show ?thesis
    using assms(3,4)
    by (simp add: fetchIssPosition_def issPosition_publish statusDot_publish validPosition_def)
qed

text \<open>The example of the specification: latitude \<open>"51.6"\<close> and longitude \<open>"-0.1"\<close>.\<close>

theorem feed_publishes_parsed_fields_witness:
  "numeric (field (JObj [(''latitude'', JStr ''51.6''), (''longitude'', JStr ''-0.1'')]) ''latitude'')
   \<and> numeric (field (JObj [(''latitude'', JStr ''51.6''), (''longitude'', JStr ''-0.1'')]) ''longitude'')
   \<and> inRange 90 (parseFloat
        (field (JObj [(''latitude'', JStr ''51.6''), (''longitude'', JStr ''-0.1'')]) ''latitude''))
   \<and> inRange 180 (parseFloat
        (field (JObj [(''latitude'', JStr ''51.6''), (''longitude'', JStr ''-0.1'')]) ''longitude''))
   \<and> issPosition (fetchIssPosition
        (Response True (Some (JObj [(''latitude'', JStr ''51.6''), (''longitude'', JStr ''-0.1'')]))) init)
       = Some \<lparr> lng = Fin (- 1 / 10), lat = Fin (516 / 10) \<rparr>
   \<and> validPosition \<lparr> lng = Fin (- 1 / 10), lat = Fin (516 / 10) \<rparr>
   \<and> statusDot (fetchIssPosition
        (Response True (Some (JObj [(''latitude'', JStr ''51.6''), (''longitude'', JStr ''-0.1'')]))) init)
       = ''connected''"
proof -
  let ?d = "JObj [(''latitude'', JStr ''51.6''), (''longitude'', JStr ''-0.1'')]"
  have f1: "field ?d ''latitude'' = Some (JStr ''51.6'')" by (simp add: field_def)
  have f2: "field ?d ''longitude'' = Some (JStr ''-0.1'')" by (simp add: field_def)
  have p1: "parseFloat (Some (JStr ''51.6'')) = Fin (516 / 10)" by code_simp
  have p2: "parseFloat (Some (JStr ''-0.1'')) = Fin (- 1 / 10)" by code_simp
  have n1: "numeric (Some (JStr ''51.6''))" by code_simp
  have n2: "numeric (Some (JStr ''-0.1''))" by code_simp
  have h1: "numeric (field ?d ''latitude'')" by (simp only: f1 n1)
  have h2: "numeric (field ?d ''longitude'')" by (simp only: f2 n2)
  have h3: "inRange 90 (parseFloat (field ?d ''latitude''))" by (simp only: f1 p1) simp
  have h4: "inRange 180 (parseFloat (field ?d ''longitude''))" by (simp only: f2 p2) simp
  have "issPosition (fetchIssPosition (Response True (Some ?d)) init)
           = Some \<lparr> lng = parseFloat (field ?d ''longitude''), lat = parseFloat (field ?d ''latitude'') \<rparr>
       \<and> validPosition \<lparr> lng = parseFloat (field ?d ''longitude''), lat = parseFloat (field ?d ''latitude'') \<rparr>
       \<and> statusDot (fetchIssPosition (Response True (Some ?d)) init) = ''connected''"
    by (rule feed_publishes_parsed_fields [OF h1 h2 h3 h4])
  then have "issPosition (fetchIssPosition (Response True (Some ?d)) init)
           = Some \<lparr> lng = Fin (- 1 / 10), lat = Fin (516 / 10) \<rparr>
       \<and> validPosition \<lparr> lng = Fin (- 1 / 10), lat = Fin (516 / 10) \<rparr>
       \<and> statusDot (fetchIssPosition (Response True (Some ?d)) init) = ''connected''"
    by (simp only: f1 f2 p1 p2)
  with h1 h2 h3 h4 show ?thesis by blast
qed

text \<open>
  Claim C10: a poll that reads a position while the marker source does not exist yet
  publishes the position, shows it in the panel and sets the status to \<open>connected\<close>; the
  marker stays absent, and everything else is as it would be with the source in place.
\<close>

theorem feed_succeeds_without_marker:
  assumes "markerSource s = None" and "readPosition r = Inr p"
  shows "issPosition (fetchIssPosition r s) = Some p
       \<and> panelPosition (fetchIssPosition r s) = Some p
       \<and> statusDot (fetchIssPosition r s) = ''connected''
       \<and> statusText (fetchIssPosition r s) = ''ISS Connected''
       \<and> markerSource (fetchIssPosition r s) = None
       \<and> fetchIssPosition r s
           = (fetchIssPosition r (s\<lparr> markerSource := Some c \<rparr>))\<lparr> markerSource := None \<rparr>"
  using assms by (simp add: fetchIssPosition_def publish_def)

text \<open>The first poll of a page whose map has not loaded: \<open>init\<close> has no marker source.\<close>

theorem feed_succeeds_without_marker_witness:
  "markerSource init = None
   \<and> readPosition (Response True (Some (JObj [(''latitude'', JNum 10), (''longitude'', JNum 20)])))
       = Inr \<lparr> lng = Fin 20, lat = Fin 10 \<rparr>
   \<and> issPosition (fetchIssPosition
        (Response True (Some (JObj [(''latitude'', JNum 10), (''longitude'', JNum 20)]))) init)
       = Some \<lparr> lng = Fin 20, lat = Fin 10 \<rparr>
   \<and> statusDot (fetchIssPosition
        (Response True (Some (JObj [(''latitude'', JNum 10), (''longitude'', JNum 20)]))) init)
       = ''connected''
   \<and> markerSource (fetchIssPosition
        (Response True (Some (JObj [(''latitude'', JNum 10), (''longitude'', JNum 20)]))) init)
       = None"
proof -
  have h1: "markerSource init = None" by (simp add: init_def)
  have h2: "readPosition (Response True (Some (JObj [(''latitude'', JNum 10), (''longitude'', JNum 20)])))
       = Inr \<lparr> lng = Fin 20, lat = Fin 10 \<rparr>"
    by (simp add: readPosition_def)
  show ?thesis
    using feed_succeeds_without_marker [OF h1 h2] h1 h2 by simp
qed


section \<open>Properties of \<open>render\<close>\<close>






text \<open>The three ways through \<open>render\<close>.\<close>

lemma render_no_model:
  "issModel s = None \<Longrightarrow>
   render h rnd m s =
     Inr (if rnd < 0.01
          then s\<lparr> console := console s @ [''Render skipped - ISS model not loaded yet''] \<rparr>
          else s)"
  by (simp add: render_def)

lemma render_throws:
  "issModel s = Some mdl \<Longrightarrow> project h (currentPosition s) altitude = Inl e \<Longrightarrow>
   render h rnd m s = Inl e"
  by (simp add: render_def)

lemma render_returns:
  assumes "issModel s = Some mdl" and "project h (currentPosition s) altitude = Inr t"
  shows "\<exists>s'. render h rnd m s = Inr s'
       \<and> issModel s' =
           Some (mdl\<lparr> matrix :=
              multiply (fromArray m)
                (Matrix4_scale (makeTranslation (translateX t) (translateY t) (translateZ t))
                   (scale t, - scale t, scale t)),
              matrixAutoUpdate := False \<rparr>)
       \<and> projectionMatrix s' = fromArray m
       \<and> draws s' = draws s @ [(scene s, fromArray m)]
       \<and> scene s' = scene s \<and> layerAdded s' = layerAdded s \<and> uncaught s' = uncaught s
       \<and> issPosition s' = issPosition s"
  using assms by (simp add: render_def Let_def)


text \<open>What \<open>render\<close> shows of the matrices, for a page with a model.\<close>

lemma outcome_render:
  "issModel s = Some mdl \<Longrightarrow>
   outcome (render h rnd m s) =
     (case project h (currentPosition s) altitude of
        Inl e \<Rightarrow> Inl e
      | Inr t \<Rightarrow>
          Inr (Some (multiply (fromArray m)
                 (Matrix4_scale (makeTranslation (translateX t) (translateY t) (translateZ t))
                    (scale t, - scale t, scale t))),
               fromArray m))"
  by (simp add: render_def outcome_def Let_def split: sum.splits)

lemma afterFrame_render:
  "issModel s = Some mdl \<Longrightarrow>
   (\<exists>mdl'. issModel (afterFrame s (render h rnd m s)) = Some mdl')
   \<and> issPosition (afterFrame s (render h rnd m s)) = issPosition s"
  by (simp add: render_def afterFrame_def Let_def split: sum.splits)



text \<open>
  Claim C8: \<open>render\<close> called twice with the same camera matrix and nothing in between
  shows the second time what it showed the first time, the same model matrix and the
  same camera projection (or the same error of the host); and for any two states with a
  model and the same published position, \<open>render\<close> shows the same, whatever else
  differs.
\<close>

theorem render_deterministic:
  "outcome (render h r2 m (afterFrame s (render h r1 m s))) = outcome (render h r1 m s)
   \<and> (issModel sa \<noteq> None \<longrightarrow> issModel sb \<noteq> None \<longrightarrow> issPosition sa = issPosition sb \<longrightarrow>
        outcome (render h ra m sa) = outcome (render h rb m sb))"
proof -
  have same: "outcome (render h ra m sa) = outcome (render h rb m sb)"
    if ma: "issModel sa = Some ma" and mb: "issModel sb = Some mb" and p: "issPosition sa = issPosition sb"
    for sa sb ma mb ra rb
  proof -
    from p have cp: "currentPosition sa = currentPosition sb" by (simp add: currentPosition_def)
    show ?thesis
      by (simp only: outcome_render [OF ma] outcome_render [OF mb] cp)
  qed
  have twice: "outcome (render h r2 m (afterFrame s (render h r1 m s))) = outcome (render h r1 m s)"
  proof (cases "issModel s")
    case None
    then show ?thesis
      by (simp add: render_no_model afterFrame_def outcome_def)
  next
    case (Some mdl)
    from afterFrame_render [OF Some, of h r1 m]
    obtain mdl' where m': "issModel (afterFrame s (render h r1 m s)) = Some mdl'"
      and p: "issPosition (afterFrame s (render h r1 m s)) = issPosition s"
      by blast
    from same [OF m' Some p] show ?thesis .
  qed
  show ?thesis using twice same by blast
qed

text \<open>
  A page with the fallback model and a page with the loaded model, neither with a
  position yet: \<open>render\<close> leaves the same matrices in both.
\<close>

theorem render_deterministic_witness:
  "issModel (onError (onAdd init)) \<noteq> None
   \<and> issModel (onLoad 3 (onAdd init)) \<noteq> None
   \<and> issPosition (onError (onAdd init)) = issPosition (onLoad 3 (onAdd init))
   \<and> outcome (render sampleHost (1 / 2) sampleCamera (onError (onAdd init)))
       = outcome (render sampleHost 0 sampleCamera (onLoad 3 (onAdd init)))
   \<and> outcome (render sampleHost 0 sampleCamera (onLoad 3 (onAdd init)))
       = Inr (Some (Mat4 (1 / 20000000) 0 0 0  0 (- 1 / 20000000) 0 0  0 0 (1 / 20000000) 0
                         2 2 (26 / 25) 1), sampleCamera)"
proof -
  have h1: "issModel (onError (onAdd init)) \<noteq> None" by (simp add: onError_def)
  have h2: "issModel (onLoad 3 (onAdd init)) \<noteq> None" by (simp add: onLoad_def)
  have h3: "issPosition (onError (onAdd init)) = issPosition (onLoad 3 (onAdd init))"
    by (simp add: onError_def onLoad_def)
  have c: "currentPosition (onLoad 3 (onAdd init)) = \<lparr> lng = Fin 0, lat = Fin 0 \<rparr>"
    by (simp add: currentPosition_def onLoad_def onAdd_def init_def)
  have t: "project sampleHost \<lparr> lng = Fin 0, lat = Fin 0 \<rparr> altitude
       = Inr \<lparr> translateX = 1 / 2, translateY = 1 / 2, translateZ = 1 / 50, scale = 1 / 40000000 \<rparr>"
    by (simp add: project_def sampleHost_def altitude_def)
  obtain mdl where ml: "issModel (onLoad 3 (onAdd init)) = Some mdl"
    using h2 by blast
  have o: "outcome (render sampleHost 0 sampleCamera (onLoad 3 (onAdd init)))
       = Inr (Some (Mat4 (1 / 20000000) 0 0 0  0 (- 1 / 20000000) 0 0  0 0 (1 / 20000000) 0
                         2 2 (26 / 25) 1), sampleCamera)"
    by (simp add: outcome_render [OF ml] c t makeTranslation_def fromArray_def sampleCamera_def)
  from render_deterministic [of sampleHost _ sampleCamera _ _ "onError (onAdd init)"
      "onLoad 3 (onAdd init)" "1 / 2" 0] h1 h2 h3 o
  show ?thesis by blast
qed

text \<open>
  Claim C9: \<open>render\<close> called while no model is attached returns, draws nothing, asks for
  no repaint, and leaves the model, the test cube and the camera projection as they
  were: nothing but the console can differ.
\<close>

theorem render_skips_without_model:
  assumes "issModel s = None"
  shows "\<exists>s'. render h rnd m s = Inr s'
       \<and> draws s' = draws s
       \<and> repaints s' = repaints s
       \<and> issModel s' = None
       \<and> testCube s' = testCube s
       \<and> projectionMatrix s' = projectionMatrix s
       \<and> s'\<lparr> console := console s \<rparr> = s"
  using assms by (simp add: render_no_model)

text \<open>A frame right after \<open>onAdd\<close>, with the random number that makes \<open>render\<close> log.\<close>

theorem render_skips_without_model_witness:
  "issModel (onAdd init) = None
   \<and> (\<exists>s'. render sampleHost 0 sampleCamera (onAdd init) = Inr s'
       \<and> draws s' = []
       \<and> repaints s' = 0
       \<and> issModel s' = None
       \<and> testCube s' = Some \<lparr> matrix = identity4, matrixAutoUpdate = True \<rparr>
       \<and> projectionMatrix s' = identity4
       \<and> console s' = console (onAdd init) @ [''Render skipped - ISS model not loaded yet''])"
proof -
  have h: "issModel (onAdd init) = None" by (simp add: onAdd_def init_def)
  have r: "render sampleHost 0 sampleCamera (onAdd init)
             = Inr ((onAdd init)\<lparr> console := console (onAdd init)
                      @ [''Render skipped - ISS model not loaded yet''] \<rparr>)"
    by (simp add: render_no_model [OF h])
  from render_skips_without_model [OF h, of sampleHost 0 sampleCamera]
  obtain s' where s': "render sampleHost 0 sampleCamera (onAdd init) = Inr s'"
    "draws s' = draws (onAdd init)" "repaints s' = repaints (onAdd init)" "issModel s' = None"
    "testCube s' = testCube (onAdd init)" "projectionMatrix s' = projectionMatrix (onAdd init)"
    by blast
  from s'(1) r have "s' = (onAdd init)\<lparr> console := console (onAdd init)
                      @ [''Render skipped - ISS model not loaded yet''] \<rparr>"
    by simp
  then have c: "console s' = console (onAdd init) @ [''Render skipped - ISS model not loaded yet'']"
    by simp
  from s' c h show ?thesis
    by (simp add: onAdd_def init_def)
qed

section \<open>Properties of the model's readiness\<close>

lemma fetch_layer_fields:
  "scene (fetchIssPosition r s) = scene s \<and> layerAdded (fetchIssPosition r s) = layerAdded s
     \<and> issModel (fetchIssPosition r s) = issModel s
     \<and> draws (fetchIssPosition r s) = draws s
     \<and> uncaught (fetchIssPosition r s) = uncaught s"
  by (simp add: fetchIssPosition_def fetchFailed_def publish_def split: sum.splits)

lemma run_snoc: "run h (es @ [e]) s = step h (run h es s) e"
  by (simp add: run_def)

lemma run_Cons: "run h (e # es) s = run h es (step h s e)"
  by (simp add: run_def)

text \<open>Before the loader calls back, nothing attaches a model, and no frame throws.\<close>

lemma loadingInv_init: "loadingInv init"
  by (simp add: loadingInv_def init_def fallbackCount_def)

lemma loadingInv_step:
  assumes "loadingInv s" and "\<not> isAsset e"
  shows "loadingInv (step h s e)"
proof (cases e)
  case MapLoad
  then show ?thesis using assms(1)
    by (auto simp: loadingInv_def onAdd_def fallbackCount_def)
next
  case (AssetLoaded n)
  then show ?thesis using assms(2) by simp
next
  case AssetFailed
  then show ?thesis using assms(2) by simp
next
  case (Frame rnd m)
  from assms(1) have "issModel s = None" by (simp add: loadingInv_def)
  then show ?thesis using Frame assms(1)
    by (auto simp: render_no_model loadingInv_def fallbackCount_def)
next
  case (PollDone r)
  then show ?thesis using assms(1) fetch_layer_fields [of r s]
    by (auto simp: loadingInv_def fallbackCount_def)
next
  case LoadingScreenHidden
  then show ?thesis using assms(1)
    by (auto simp: loadingInv_def fallbackCount_def hideLoadingScreen_def)
next
  case FollowToggled
  then show ?thesis using assms(1)
    by (auto simp: loadingInv_def fallbackCount_def toggleFollowISS_def Let_def)
next
  case ViewReset
  then show ?thesis using assms(1)
    by (auto simp: loadingInv_def fallbackCount_def resetMapView_def)
qed

lemma loadingInv_run:
  "loadingInv s \<Longrightarrow> filter isAsset es = [] \<Longrightarrow> loadingInv (run h es s)"
proof (induction es rule: rev_induct)
  case Nil
  then show ?case by (simp add: run_def)
next
  case (snoc e es)
  then have "loadingInv (run h es s)" and "\<not> isAsset e"
    by (auto split: if_splits)
  then show ?case by (simp add: run_snoc loadingInv_step)
qed

lemma modelReadiness_fallback:
  "modelReadiness s = ReadyFallback \<longleftrightarrow> (\<exists>mdl. issModel s = Some mdl \<and> kind mdl = Fallback)"
  by (auto simp: modelReadiness_def split: option.splits modelKind.splits)

text \<open>The error callback on a page that waits for the model.\<close>

lemma fallbackInv_after_failure:
  assumes "loadingInv s" and "layerAdded s"
  shows "fallbackInv (step h s AssetFailed) \<and> draws (step h s AssetFailed) = draws s
       \<and> uncaught (step h s AssetFailed) = []"
  using assms
  by (auto simp: loadingInv_def fallbackInv_def onError_def modelReadiness_def createISSModel_def
      fallbackCount_def)

lemma fallback_in_scene: "fallbackInv s \<Longrightarrow> IssModel Fallback \<in> set (scene s)"
proof -
  assume "fallbackInv s"
  then have "filter (\<lambda>x. x = IssModel Fallback) (scene s) \<noteq> []"
    by (auto simp: fallbackInv_def fallbackCount_def)
  then show ?thesis
    by (metis (mono_tags, lifting) filter_False)
qed

text \<open>
  A call of \<open>render\<close> with the fallback in place: it draws the scene, which holds the
  fallback, when the host projects the current position, and throws the host's error
  and leaves the page alone when the host throws.
\<close>

lemma fallback_render:
  assumes "fallbackInv s"
  shows "(\<forall>t. project h (currentPosition s) altitude = Inr t \<longrightarrow>
            (\<exists>s'. render h rnd m s = Inr s' \<and> fallbackInv s'
                 \<and> draws s' = draws s @ [(scene s, fromArray m)]
                 \<and> uncaught s' = uncaught s
                 \<and> IssModel Fallback \<in> set (scene s)))
       \<and> (\<forall>e. project h (currentPosition s) altitude = Inl e \<longrightarrow> render h rnd m s = Inl e)"
proof (intro conjI allI impI)
  from assms obtain mdl where mdl: "issModel s = Some mdl" "kind mdl = Fallback"
    by (auto simp: fallbackInv_def modelReadiness_fallback)
  {
    fix t
    assume t: "project h (currentPosition s) altitude = Inr t"
    from render_returns [OF mdl(1) t, of rnd m] obtain s' where s': "render h rnd m s = Inr s'"
      "issModel s' = Some (mdl\<lparr> matrix :=
              multiply (fromArray m)
                (Matrix4_scale (makeTranslation (translateX t) (translateY t) (translateZ t))
                   (scale t, - scale t, scale t)),
              matrixAutoUpdate := False \<rparr>)"
      "draws s' = draws s @ [(scene s, fromArray m)]"
      "scene s' = scene s" "layerAdded s' = layerAdded s" "uncaught s' = uncaught s"
      by blast
    from s'(2) mdl(2) have "modelReadiness s' = ReadyFallback"
      by (simp add: modelReadiness_def)
    with assms s'(4,5) have "fallbackInv s'"
      by (simp add: fallbackInv_def fallbackCount_def)
    with s' fallback_in_scene [OF assms]
    show "\<exists>s'. render h rnd m s = Inr s' \<and> fallbackInv s'
                 \<and> draws s' = draws s @ [(scene s, fromArray m)]
                 \<and> uncaught s' = uncaught s
                 \<and> IssModel Fallback \<in> set (scene s)"
      by blast
  }
  {
    fix e
    assume "project h (currentPosition s) altitude = Inl e"
    then show "render h rnd m s = Inl e"
      by (rule render_throws [OF mdl(1)])
  }
qed

text \<open>
  With the fallback in place, an event that is not the loader's keeps it in place; a
  frame adds one draw of a scene with the fallback, or one error let out to the host,
  and no other event adds either.
\<close>

lemma fallbackInv_step:
  assumes "fallbackInv s" and "\<not> isAsset e"
  shows "fallbackInv (step h s e)
       \<and> (\<exists>ds us. draws (step h s e) = draws s @ ds \<and> uncaught (step h s e) = uncaught s @ us
             \<and> length ds + length us = (if isFrame e then 1 else 0)
             \<and> (\<forall>d\<in>set ds. IssModel Fallback \<in> set (fst d)))"
proof (cases e)
  case MapLoad
  then show ?thesis using assms(1) by (simp add: fallbackInv_def)
next
  case (AssetLoaded n)
  then show ?thesis using assms(2) by simp
next
  case AssetFailed
  then show ?thesis using assms(2) by simp
next
  case (Frame rnd m)
  from assms(1) have la: "layerAdded s" by (simp add: fallbackInv_def)
  show ?thesis
  proof (cases "project h (currentPosition s) altitude")
    case (Inl err)
    with fallback_render [OF assms(1), of h rnd m] have "render h rnd m s = Inl err"
      by blast
    then have st: "step h s e = s\<lparr> uncaught := uncaught s @ [err] \<rparr>"
      using Frame la by simp
    have "fallbackInv (s\<lparr> uncaught := uncaught s @ [err] \<rparr>)"
      using assms(1) by (simp add: fallbackInv_def modelReadiness_def fallbackCount_def)
    moreover have "draws (s\<lparr> uncaught := uncaught s @ [err] \<rparr>) = draws s @ []
        \<and> uncaught (s\<lparr> uncaught := uncaught s @ [err] \<rparr>) = uncaught s @ [err]
        \<and> length ([] :: draw list) + length [err] = (if isFrame e then 1 else 0)
        \<and> (\<forall>d\<in>set ([] :: draw list). IssModel Fallback \<in> set (fst d))"
      using Frame by simp
    ultimately show ?thesis unfolding st by blast
  next
    case (Inr t)
    with fallback_render [OF assms(1), of h rnd m] obtain s' where s': "render h rnd m s = Inr s'"
      "fallbackInv s'" "draws s' = draws s @ [(scene s, fromArray m)]" "uncaught s' = uncaught s"
      "IssModel Fallback \<in> set (scene s)"
      by blast
    from s'(1) have st: "step h s e = s'" using Frame la by simp
    have "draws s' = draws s @ [(scene s, fromArray m)] \<and> uncaught s' = uncaught s @ []
        \<and> length [(scene s, fromArray m)] + length ([] :: error list) = (if isFrame e then 1 else 0)
        \<and> (\<forall>d\<in>set [(scene s, fromArray m)]. IssModel Fallback \<in> set (fst d))"
      using s'(3,4,5) Frame by simp
    with s'(2) show ?thesis unfolding st by blast
  qed
next
  case (PollDone r)
  then show ?thesis using assms(1) fetch_layer_fields [of r s]
    by (simp add: fallbackInv_def fallbackCount_def modelReadiness_def)
next
  case LoadingScreenHidden
  then show ?thesis using assms(1)
    by (simp add: fallbackInv_def fallbackCount_def modelReadiness_def hideLoadingScreen_def)
next
  case FollowToggled
  then show ?thesis using assms(1)
    by (simp add: fallbackInv_def fallbackCount_def modelReadiness_def toggleFollowISS_def Let_def)
next
  case ViewReset
  then show ?thesis using assms(1)
    by (simp add: fallbackInv_def fallbackCount_def modelReadiness_def resetMapView_def)
qed

lemma fallbackInv_run:
  assumes "fallbackInv s" and "filter isAsset es = []"
  shows "fallbackInv (run h es s)
       \<and> (\<exists>ds us. draws (run h es s) = draws s @ ds \<and> uncaught (run h es s) = uncaught s @ us
              \<and> length ds + length us = length (filter isFrame es)
              \<and> (\<forall>d\<in>set ds. IssModel Fallback \<in> set (fst d)))"
  using assms(2)
proof (induction es rule: rev_induct)
  case Nil
  then show ?case using assms(1) by (simp add: run_def)
next
  case (snoc e es)
  then have na: "\<not> isAsset e" and nes: "filter isAsset es = []"
    by (auto split: if_splits)
  from snoc.IH [OF nes] obtain ds us where inv: "fallbackInv (run h es s)"
    and ds: "draws (run h es s) = draws s @ ds" "uncaught (run h es s) = uncaught s @ us"
      "length ds + length us = length (filter isFrame es)"
      "\<forall>d\<in>set ds. IssModel Fallback \<in> set (fst d)"
    by blast
  let ?t = "run h es s"
  from fallbackInv_step [OF inv na, of h] obtain ds' us' where st: "fallbackInv (step h ?t e)"
    "draws (step h ?t e) = draws ?t @ ds'" "uncaught (step h ?t e) = uncaught ?t @ us'"
    "length ds' + length us' = (if isFrame e then 1 else 0)"
    "\<forall>d\<in>set ds'. IssModel Fallback \<in> set (fst d)"
    by blast
  have "draws (run h (es @ [e]) s) = draws s @ (ds @ ds')"
    using st(2) ds(1) by (simp add: run_snoc)
  moreover have "uncaught (run h (es @ [e]) s) = uncaught s @ (us @ us')"
    using st(3) ds(2) by (simp add: run_snoc)
  moreover have "length (ds @ ds') + length (us @ us') = length (filter isFrame (es @ [e]))"
    using ds(3) st(4) by (cases "isFrame e") simp_all
  moreover have "\<forall>d\<in>set (ds @ ds'). IssModel Fallback \<in> set (fst d)"
    using ds(4) st(5) by auto
  moreover have "fallbackInv (run h (es @ [e]) s)"
    using st(1) by (simp add: run_snoc)
  ultimately show ?case by blast
qed

text \<open>
  Claim C6, as the specification states it, fails: \<open>render\<close> has no \<open>try\<close>, and the feed
  publishes a latitude of 91.  With the fallback in place and that position published,
  the next call of \<open>render\<close> throws the error of the host's projection and draws nothing.
\<close>

theorem fallback_frame_throws:
  "modelReadiness (run sampleHost
       [MapLoad, AssetFailed,
        PollDone (Response True (Some (JObj [(''latitude'', JNum 91), (''longitude'', JNum 0)])))]
       init) = ReadyFallback
   \<and> issPosition (run sampleHost
       [MapLoad, AssetFailed,
        PollDone (Response True (Some (JObj [(''latitude'', JNum 91), (''longitude'', JNum 0)])))]
       init) = Some \<lparr> lng = Fin 0, lat = Fin 91 \<rparr>
   \<and> render sampleHost (1 / 2) sampleCamera (run sampleHost
       [MapLoad, AssetFailed,
        PollDone (Response True (Some (JObj [(''latitude'', JNum 91), (''longitude'', JNum 0)])))]
       init) = Inl HostError
   \<and> draws (run sampleHost
       [MapLoad, AssetFailed,
        PollDone (Response True (Some (JObj [(''latitude'', JNum 91), (''longitude'', JNum 0)]))),
        Frame (1 / 2) sampleCamera]
       init) = []
   \<and> uncaught (run sampleHost
       [MapLoad, AssetFailed,
        PollDone (Response True (Some (JObj [(''latitude'', JNum 91), (''longitude'', JNum 0)]))),
        Frame (1 / 2) sampleCamera]
       init) = [HostError]"
  by (simp add: run_def init_def onAdd_def onError_def fetchIssPosition_def readPosition_def
      publish_def modelReadiness_def createISSModel_def render_def project_def currentPosition_def
      sampleHost_def Let_def)

text \<open>
  Claim C6, amended.  In a run of the page where the layer has been added and the loader
  calls back once, with a failure: the readiness becomes ready-fallback and stays so
  whatever happens afterwards (frames, polls, controls); the fallback was in the scene
  zero times before and is in it once ever after.  After the failure every frame, and
  nothing else, adds either one draw, of a scene that holds the fallback, or one error
  let out to the host.  A call of \<open>render\<close> returns and draws the scene with the fallback
  when the host projects the current position, and throws the host's error when the
  host throws.
\<close>

theorem fallback_once_and_drawn:
  assumes "filter isAsset es1 = []" and "layerAdded (run h es1 init)"
    and "filter isAsset es2 = []"
  shows "modelReadiness (run h (es1 @ [AssetFailed]) init) = ReadyFallback
       \<and> modelReadiness (run h (es1 @ AssetFailed # es2) init) = ReadyFallback
       \<and> fallbackCount (run h es1 init) = 0
       \<and> fallbackCount (run h (es1 @ AssetFailed # es2) init) = 1
       \<and> (\<exists>ds. draws (run h (es1 @ AssetFailed # es2) init)
                  = draws (run h (es1 @ [AssetFailed]) init) @ ds
              \<and> length ds + length (uncaught (run h (es1 @ AssetFailed # es2) init))
                  = length (filter isFrame es2)
              \<and> (\<forall>d\<in>set ds. IssModel Fallback \<in> set (fst d)))
       \<and> (\<forall>t. project h (currentPosition (run h (es1 @ AssetFailed # es2) init)) altitude = Inr t \<longrightarrow>
            (\<exists>s'. render h rnd m (run h (es1 @ AssetFailed # es2) init) = Inr s'
                 \<and> modelReadiness s' = ReadyFallback
                 \<and> draws s' = draws (run h (es1 @ AssetFailed # es2) init)
                       @ [(scene (run h (es1 @ AssetFailed # es2) init), fromArray m)]
                 \<and> IssModel Fallback \<in> set (scene (run h (es1 @ AssetFailed # es2) init))))
       \<and> (\<forall>e. project h (currentPosition (run h (es1 @ AssetFailed # es2) init)) altitude = Inl e \<longrightarrow>
            render h rnd m (run h (es1 @ AssetFailed # es2) init) = Inl e)"
proof -
  let ?s = "run h es1 init"
  let ?s' = "step h ?s AssetFailed"
  let ?t = "run h es2 ?s'"
  have inv: "loadingInv ?s" by (simp add: loadingInv_run loadingInv_init assms(1))
  from fallbackInv_after_failure [OF inv assms(2), of h]
  have f: "fallbackInv ?s'" and u: "uncaught ?s' = []" by simp_all
  have e1: "run h (es1 @ [AssetFailed]) init = ?s'" by (simp add: run_snoc)
  have e2: "run h (es1 @ AssetFailed # es2) init = ?t"
    by (simp add: run_def)
  have zero: "fallbackCount ?s = 0" using inv by (simp add: loadingInv_def)
  from fallbackInv_run [OF f assms(3), of h] obtain ds us where ft: "fallbackInv ?t"
    and ds: "draws ?t = draws ?s' @ ds" "uncaught ?t = uncaught ?s' @ us"
      "length ds + length us = length (filter isFrame es2)"
      "\<forall>d\<in>set ds. IssModel Fallback \<in> set (fst d)"
    by blast
  from ds(2) u have "uncaught ?t = us" by simp
  with ds have acc: "\<exists>ds. draws ?t = draws ?s' @ ds
       \<and> length ds + length (uncaught ?t) = length (filter isFrame es2)
       \<and> (\<forall>d\<in>set ds. IssModel Fallback \<in> set (fst d))"
    by blast
  from fallback_render [OF ft, of h rnd m]
  have call: "(\<forall>t. project h (currentPosition ?t) altitude = Inr t \<longrightarrow>
            (\<exists>s'. render h rnd m ?t = Inr s' \<and> modelReadiness s' = ReadyFallback
                 \<and> draws s' = draws ?t @ [(scene ?t, fromArray m)]
                 \<and> IssModel Fallback \<in> set (scene ?t)))
       \<and> (\<forall>e. project h (currentPosition ?t) altitude = Inl e \<longrightarrow> render h rnd m ?t = Inl e)"
    by (auto simp: fallbackInv_def)
  from f ft zero acc call show ?thesis
    unfolding e1 e2 by (simp add: fallbackInv_def)
qed

text \<open>
  The map loads, a frame comes while the model is loading, the loader fails; then a frame,
  a poll that publishes latitude 91, a frame that throws, a key press, a poll that
  publishes latitude 10, and a frame that draws again.
\<close>

theorem fallback_once_and_drawn_witness:
  "filter isAsset [MapLoad, Frame (1 / 2) sampleCamera] = []
   \<and> layerAdded (run sampleHost [MapLoad, Frame (1 / 2) sampleCamera] init)
   \<and> filter isAsset
        [Frame (1 / 2) sampleCamera,
         PollDone (Response True (Some (JObj [(''latitude'', JNum 91), (''longitude'', JNum 0)]))),
         Frame (1 / 2) sampleCamera, FollowToggled,
         PollDone (Response True (Some (JObj [(''latitude'', JNum 10), (''longitude'', JNum 0)]))),
         Frame 0 identity4] = []
   \<and> modelReadiness (run sampleHost
        ([MapLoad, Frame (1 / 2) sampleCamera] @ AssetFailed #
         [Frame (1 / 2) sampleCamera,
          PollDone (Response True (Some (JObj [(''latitude'', JNum 91), (''longitude'', JNum 0)]))),
          Frame (1 / 2) sampleCamera, FollowToggled,
          PollDone (Response True (Some (JObj [(''latitude'', JNum 10), (''longitude'', JNum 0)]))),
          Frame 0 identity4]) init)
       = ReadyFallback
   \<and> fallbackCount (run sampleHost
        ([MapLoad, Frame (1 / 2) sampleCamera] @ AssetFailed #
         [Frame (1 / 2) sampleCamera,
          PollDone (Response True (Some (JObj [(''latitude'', JNum 91), (''longitude'', JNum 0)]))),
          Frame (1 / 2) sampleCamera, FollowToggled,
          PollDone (Response True (Some (JObj [(''latitude'', JNum 10), (''longitude'', JNum 0)]))),
          Frame 0 identity4]) init)
       = 1
   \<and> draws (run sampleHost ([MapLoad, Frame (1 / 2) sampleCamera] @ [AssetFailed]) init) = []
   \<and> draws (run sampleHost
        ([MapLoad, Frame (1 / 2) sampleCamera] @ AssetFailed #
         [Frame (1 / 2) sampleCamera,
          PollDone (Response True (Some (JObj [(''latitude'', JNum 91), (''longitude'', JNum 0)]))),
          Frame (1 / 2) sampleCamera, FollowToggled,
          PollDone (Response True (Some (JObj [(''latitude'', JNum 10), (''longitude'', JNum 0)]))),
          Frame 0 identity4]) init)
       = [([AmbientLight, DirectionalLight, TestCube, IssModel Fallback], sampleCamera),
          ([AmbientLight, DirectionalLight, TestCube, IssModel Fallback], identity4)]
   \<and> uncaught (run sampleHost
        ([MapLoad, Frame (1 / 2) sampleCamera] @ AssetFailed #
         [Frame (1 / 2) sampleCamera,
          PollDone (Response True (Some (JObj [(''latitude'', JNum 91), (''longitude'', JNum 0)]))),
          Frame (1 / 2) sampleCamera, FollowToggled,
          PollDone (Response True (Some (JObj [(''latitude'', JNum 10), (''longitude'', JNum 0)]))),
          Frame 0 identity4]) init)
       = [HostError]"
proof -
  let ?es1 = "[MapLoad, Frame (1 / 2) sampleCamera]"
  let ?es2 = "[Frame (1 / 2) sampleCamera,
         PollDone (Response True (Some (JObj [(''latitude'', JNum 91), (''longitude'', JNum 0)]))),
         Frame (1 / 2) sampleCamera, FollowToggled,
         PollDone (Response True (Some (JObj [(''latitude'', JNum 10), (''longitude'', JNum 0)]))),
         Frame 0 identity4]"
  have h1: "filter isAsset ?es1 = []" by simp
  have h2: "layerAdded (run sampleHost ?es1 init)"
    by (simp add: run_def init_def onAdd_def render_def)
  have h3: "filter isAsset ?es2 = []" by simp
  have d0: "draws (run sampleHost (?es1 @ [AssetFailed]) init) = []"
    by (simp add: run_def init_def onAdd_def render_def onError_def)
  have d1: "draws (run sampleHost (?es1 @ AssetFailed # ?es2) init)
       = [([AmbientLight, DirectionalLight, TestCube, IssModel Fallback], sampleCamera),
          ([AmbientLight, DirectionalLight, TestCube, IssModel Fallback], identity4)]
     \<and> uncaught (run sampleHost (?es1 @ AssetFailed # ?es2) init) = [HostError]"
    by (simp add: run_def init_def onAdd_def render_def onError_def fetchIssPosition_def
        readPosition_def publish_def toggleFollowISS_def fromArray_def project_def
        currentPosition_def sampleHost_def Let_def)
  from fallback_once_and_drawn [OF h1 h2 h3, of 0 identity4] h1 h2 h3 d0 d1
  show ?thesis by blast
qed

section \<open>Properties of the start and of the timer\<close>

lemma callFetch_fields:
  "fetches (callFetch net cfg t pg) = fetches pg @ [(t, apiUrl cfg)]
   \<and> intervals (callFetch net cfg t pg) = intervals pg"
  by (simp add: callFetch_def Let_def)

lemma main_fields:
  "fetches (main net cfg) = [(0, apiUrl cfg)] \<and> intervals (main net cfg) = [2000]"
  by (simp add: main_def Let_def callFetch_def)

lemma main_console:
  "falsy (apiUrl cfg) \<Longrightarrow>
     ''Missing ISS API URL! Please set VITE_ISS_API_URL in your .env file''
        \<in> set (console (world (main net cfg)))"
  by (simp add: main_def Let_def callFetch_def)

lemma tick_fields:
  assumes "intervals pg = [p]"
  shows "fetches (tick net cfg t pg) = fetches pg @ (if t mod p = 0 then [(t, apiUrl cfg)] else [])
       \<and> intervals (tick net cfg t pg) = [p]"
  using assms by (simp add: tick_def Let_def callFetch_fields)

text \<open>The multiples of the period up to one more millisecond.\<close>

lemma timer_times_Suc:
  assumes "0 < p"
  shows "map (\<lambda>k. p * k) [1..<Suc (Suc t div p)]
     = map (\<lambda>k. p * k) [1..<Suc (t div p)] @ (if Suc t mod p = 0 then [Suc t] else [])"
proof (cases "Suc t mod p = 0")
  case True
  then have d: "Suc t div p = Suc (t div p)"
    by (simp add: div_Suc)
  from True have "Suc t = p * (Suc t div p)" by auto
  then show ?thesis using True d by simp
next
  case False
  then have "Suc t div p = t div p" by (simp add: div_Suc)
  then show ?thesis using False by simp
qed

text \<open>
  Whatever the network does, the fetches issued up to time \<open>t\<close> are one at time 0 and one
  at every multiple of 2000 up to \<open>t\<close>, each with the configured URL, and the timer stays.
\<close>

lemma runUntil_fetches:
  "fetches (runUntil net cfg t)
     = map (\<lambda>u. (u, apiUrl cfg)) (0 # map (\<lambda>k. 2000 * k) [1..<Suc (t div 2000)])
   \<and> intervals (runUntil net cfg t) = [2000]"
proof -
  define p :: nat where "p = 2000"
  have pos: "0 < p" by (simp add: p_def)
  have m: "fetches (main net cfg) = [(0, apiUrl cfg)]" "intervals (main net cfg) = [p]"
    by (simp_all add: main_fields p_def)
  have "fetches (runUntil net cfg t)
          = map (\<lambda>u. (u, apiUrl cfg)) (0 # map (\<lambda>k. p * k) [1..<Suc (t div p)])
   \<and> intervals (runUntil net cfg t) = [p]"
  proof (induction t)
    case 0
    then show ?case using m by simp
  next
    case (Suc t)
    then have iv: "intervals (runUntil net cfg t) = [p]" by simp
    show ?case
      using tick_fields [OF iv, of net cfg "Suc t"] Suc timer_times_Suc [OF pos, of t]
      by simp
  qed
  then show ?thesis by (simp only: p_def)
qed

text \<open>
  Claim C5, as the specification states it, fails: with no endpoint configured the
  script still calls \<open>fetchIssPosition\<close> at once and still sets the timer.
\<close>

theorem polls_issued_without_endpoint:
  "falsy (apiUrl noUrl)
   \<and> fetches (main deadNetwork noUrl) = [(0, None)]
   \<and> intervals (main deadNetwork noUrl) = [2000]"
  by (simp add: falsy_def noUrl_def main_fields)

text \<open>
  Claim C5, amended: with no endpoint configured the diagnostic is logged and the script
  runs to its end; the poll loop runs as with an endpoint, one fetch at once and one
  every 2000 ms, each called with the absent URL.
\<close>

theorem missing_endpoint_logged_polls_go_on:
  assumes "falsy (apiUrl cfg)"
  shows "''Missing ISS API URL! Please set VITE_ISS_API_URL in your .env file''
           \<in> set (console (world (main net cfg)))
       \<and> fetches (main net cfg) = [(0, apiUrl cfg)]
       \<and> intervals (main net cfg) = [2000]
       \<and> fetches (runUntil net cfg t)
           = map (\<lambda>u. (u, apiUrl cfg)) (0 # map (\<lambda>k. 2000 * k) [1..<Suc (t div 2000)])"
  using main_console [OF assms] main_fields runUntil_fetches by blast

theorem missing_endpoint_logged_polls_go_on_witness:
  "falsy (apiUrl noUrl)
   \<and> ''Missing ISS API URL! Please set VITE_ISS_API_URL in your .env file''
           \<in> set (console (world (main deadNetwork noUrl)))
   \<and> fetches (main deadNetwork noUrl) = [(0, apiUrl noUrl)]
   \<and> intervals (main deadNetwork noUrl) = [2000]
   \<and> fetches (runUntil deadNetwork noUrl 4000)
       = map (\<lambda>u. (u, apiUrl noUrl)) (0 # map (\<lambda>k. 2000 * k) [1..<Suc (4000 div 2000)])"
proof -
  have h: "falsy (apiUrl noUrl)" by (simp add: falsy_def noUrl_def)
  from missing_endpoint_logged_polls_go_on [OF h, of deadNetwork 4000] h show ?thesis
    by blast
qed

text \<open>
  Claim C7: the first fetch is issued at time 0 and then one fetch at every multiple of
  2000 ms, for as long as the page runs, whatever the answers are and however long they
  take; the timer keeps its period of 2000 ms.
\<close>

theorem fetch_cadence:
  "map fst (fetches (runUntil net cfg t)) = 0 # map (\<lambda>k. 2000 * k) [1..<Suc (t div 2000)]
   \<and> intervals (runUntil net cfg t) = [2000]"
proof -
  define p :: nat where "p = 2000"
  have pos: "0 < p" by (simp add: p_def)
  have "map fst (fetches (runUntil net cfg t)) = 0 # map (\<lambda>k. p * k) [1..<Suc (t div p)]
   \<and> intervals (runUntil net cfg t) = [p]"
  proof (induction t)
    case 0
    show ?case by (simp add: main_fields p_def)
  next
    case (Suc t)
    then have iv: "intervals (runUntil net cfg t) = [p]" by simp
    have "map fst (fetches (runUntil net cfg (Suc t)))
            = map fst (fetches (runUntil net cfg t)) @ (if Suc t mod p = 0 then [Suc t] else [])"
      using tick_fields [OF iv, of net cfg "Suc t"] by simp
    also have "\<dots> = 0 # (map (\<lambda>k. p * k) [1..<Suc (t div p)]
                            @ (if Suc t mod p = 0 then [Suc t] else []))"
      using Suc by simp
    also have "\<dots> = 0 # map (\<lambda>k. p * k) [1..<Suc (Suc t div p)]"
      by (simp only: timer_times_Suc [OF pos, of t])
    finally show ?case
      using tick_fields [OF iv, of net cfg "Suc t"] by simp
  qed
  then show ?thesis by (simp only: p_def)
qed

end
